theory Spec2Isabelle
  imports Complex_Main "HOL-Library.List_Lexorder" "HOL-Library.Monad_Syntax"
begin

section \<open>Python values\<close>

text \<open>
  A Python \<open>str\<close> is a sequence of Unicode code points, so it is modelled as a list of
  natural numbers: \<open>len\<close> counts code points and the homoglyph table is keyed by code
  point. \<open>py\<close> embeds an ASCII literal.
\<close>

type_synonym pystr = "nat list"

definition py :: "string \<Rightarrow> pystr" where
  "py s = map of_char s"

text \<open>Python's \<open>str(n)\<close> for an \<open>int\<close>.\<close>

fun str_nat :: "nat \<Rightarrow> pystr" where
  "str_nat n = (if n < 10 then [48 + n] else str_nat (n div 10) @ [48 + n mod 10])"

declare str_nat.simps [simp del]

definition str_int :: "int \<Rightarrow> pystr" where
  "str_int i = (if i < 0 then py ''-'' @ str_nat (nat (- i)) else str_nat (nat i))"

text \<open>
  \<open>sep.join(xs)\<close>, \<open>s.split(sep)\<close> for a one-character separator, \<open>s.split(sep, 1)\<close>
  for a string that contains the separator, and \<open>s.replace(old, new)\<close>.
\<close>

fun join :: "pystr \<Rightarrow> pystr list \<Rightarrow> pystr" where
  "join sep [] = []"
| "join sep [x] = x"
| "join sep (x # y # ys) = x @ sep @ join sep (y # ys)"

fun split_chr :: "nat \<Rightarrow> pystr \<Rightarrow> pystr list" where
  "split_chr c [] = [[]]"
| "split_chr c (x # xs) =
     (if x = c then [] # split_chr c xs
      else (case split_chr c xs of [] \<Rightarrow> [[x]] | p # ps \<Rightarrow> (x # p) # ps))"

definition split_first :: "nat \<Rightarrow> pystr \<Rightarrow> pystr \<times> pystr" where
  "split_first c s = (takeWhile (\<lambda>x. x \<noteq> c) s, drop 1 (dropWhile (\<lambda>x. x \<noteq> c) s))"

function replace_str :: "pystr \<Rightarrow> pystr \<Rightarrow> pystr \<Rightarrow> pystr" where
  "replace_str old new [] = []"
| "replace_str old new (c # cs) =
     (if old \<noteq> [] \<and> take (length old) (c # cs) = old
      then new @ replace_str old new (drop (length old) (c # cs))
      else c # replace_str old new cs)"
  by pat_completeness auto
termination
  by (relation "measure (\<lambda>(old, new, s). length s)") auto

text \<open>
  A Python \<open>float\<close> is a finite double (a rational number), an infinity or NaN. Every
  comparison with NaN is false.
\<close>

datatype pyfloat = Finite rat | PosInf | NegInf | NaN

fun float_le :: "pyfloat \<Rightarrow> pyfloat \<Rightarrow> bool" where
  "float_le NaN _ = False"
| "float_le _ NaN = False"
| "float_le NegInf _ = True"
| "float_le _ PosInf = True"
| "float_le (Finite a) (Finite b) = (a \<le> b)"
| "float_le _ _ = False"

fun float_less :: "pyfloat \<Rightarrow> pyfloat \<Rightarrow> bool" where
  "float_less NaN _ = False"
| "float_less _ NaN = False"
| "float_less PosInf _ = False"
| "float_less _ NegInf = False"
| "float_less (Finite a) (Finite b) = (a < b)"
| "float_less _ _ = True"

text \<open>The values of \<open>json.loads\<close>.\<close>

datatype json =
    JNull
  | JBool bool
  | JInt int
  | JFloat pyfloat
  | JStr pystr
  | JArr "json list"
  | JObj "(pystr \<times> json) list"

text \<open>Python truthiness of such a value (\<open>not x\<close> is its negation).\<close>

fun truthy :: "json \<Rightarrow> bool" where
  "truthy JNull = False"
| "truthy (JBool b) = b"
| "truthy (JInt i) = (i \<noteq> 0)"
| "truthy (JFloat f) = (f \<noteq> Finite 0)"
| "truthy (JStr s) = (s \<noteq> [])"
| "truthy (JArr xs) = (xs \<noteq> [])"
| "truthy (JObj kvs) = (kvs \<noteq> [])"

text \<open>Truthiness of an optional string: \<open>None\<close> and \<open>""\<close> are falsy.\<close>

fun truthy_str :: "pystr option \<Rightarrow> bool" where
  "truthy_str None = False"
| "truthy_str (Some s) = (s \<noteq> [])"

subsection \<open>The standard library\<close>

text \<open>
  The code calls functions of the Python standard library whose results are not decided
  by this repository: the digests of \<open>hashlib\<close> and \<open>hmac\<close>, Unicode case mapping,
  the parsers \<open>float\<close>, \<open>int\<close> and \<open>json.loads\<close>, \<open>urllib.parse\<close> and the
  \<open>datetime\<close> parsers. They are the fields of one record that every modelled function
  takes as its first argument, so that each theorem holds for whatever these functions
  compute. A parser that raises returns \<open>None\<close>.

  \<^item> \<open>sha256_hexdigest s\<close> is \<open>hashlib.sha256(s.encode()).hexdigest()\<close>;
  \<^item> \<open>hmac_hexdigest secret data\<close> is
    \<open>hmac.new(secret.encode("utf-8"), data.encode("utf-8"), hashlib.sha256).hexdigest()\<close>;
  \<^item> \<open>qs_of_url url\<close> is \<open>parse_qs(urlparse(url).query)\<close>, a dictionary from names to
    lists of values in order of first occurrence;
  \<^item> \<open>fromtimestamp\<close> and \<open>fromisoformat\<close> are those of \<open>datetime\<close>; a \<open>datetime\<close> is
    modelled as a number of microseconds since the epoch;
  \<^item> \<open>int_of_scaled v d\<close> is \<open>int(v * (10**d))\<close> in double arithmetic, for a finite \<open>v\<close>.

  Strings are assumed encodable as UTF-8 (no lone surrogates), so \<open>encode\<close> does not raise.
\<close>

record pylib =
  sha256_hexdigest :: "pystr \<Rightarrow> pystr"
  hmac_hexdigest :: "pystr \<Rightarrow> pystr \<Rightarrow> pystr"
  str_lower :: "pystr \<Rightarrow> pystr"
  str_upper :: "pystr \<Rightarrow> pystr"
  float_of_str :: "pystr \<Rightarrow> pyfloat option"
  int_of_str :: "pystr \<Rightarrow> int option"
  urlencode :: "(pystr \<times> pystr) list \<Rightarrow> pystr"
  qs_of_url :: "pystr \<Rightarrow> (pystr \<times> pystr list) list option"
  json_loads :: "pystr \<Rightarrow> json option"
  fromtimestamp :: "json \<Rightarrow> int option"
  fromisoformat :: "pystr \<Rightarrow> int option"
  int_of_scaled :: "rat \<Rightarrow> int \<Rightarrow> int"

text \<open>
  Regular expressions. In Python \<open>$\<close> matches at the end of the string and also just
  before a newline that ends the string, so \<open>re.match("^P$", s)\<close> succeeds when \<open>P\<close>
  matches all of \<open>s\<close> or all of \<open>s\<close> without its final newline.
\<close>

definition re_match_dollar :: "(pystr \<Rightarrow> bool) \<Rightarrow> pystr \<Rightarrow> bool" where
  "re_match_dollar P s = (P s \<or> (s \<noteq> [] \<and> last s = 10 \<and> P (butlast s)))"

definition is_digit :: "nat \<Rightarrow> bool" where
  "is_digit c = (48 \<le> c \<and> c \<le> 57)"

definition is_lower_az :: "nat \<Rightarrow> bool" where
  "is_lower_az c = (97 \<le> c \<and> c \<le> 122)"

definition is_upper_AZ :: "nat \<Rightarrow> bool" where
  "is_upper_AZ c = (65 \<le> c \<and> c \<le> 90)"

definition is_hex :: "nat \<Rightarrow> bool" where
  "is_hex c = ((97 \<le> c \<and> c \<le> 102) \<or> (65 \<le> c \<and> c \<le> 70) \<or> is_digit c)"

section \<open>Errors\<close>

text \<open>
  \<open>ProtocolBanksError\<close> carries its code and its message. The other exceptions the
  code can meet are those of pydantic and of the standard library.
\<close>

datatype error =
    ProtocolBanksError pystr pystr
  | PydanticValidationError
  | OtherException pystr

text \<open>
  \<open>str(e)\<close>. \<open>ProtocolBanksError\<close> passes its message to \<open>Exception.__init__\<close>. The
  text of an exception raised outside the repository is not modelled: it is represented
  by the name the exception carries.
\<close>

fun str_error :: "error \<Rightarrow> pystr" where
  "str_error (ProtocolBanksError c m) = m"
| "str_error PydanticValidationError = py ''ValidationError''"
| "str_error (OtherException n) = n"

fun error_code :: "error \<Rightarrow> pystr option" where
  "error_code (ProtocolBanksError c m) = Some c"
| "error_code _ = None"

definition LINK_INVALID_ADDRESS :: pystr where "LINK_INVALID_ADDRESS = py ''PB_LINK_001''"
definition LINK_INVALID_AMOUNT :: pystr where "LINK_INVALID_AMOUNT = py ''PB_LINK_002''"
definition LINK_INVALID_TOKEN :: pystr where "LINK_INVALID_TOKEN = py ''PB_LINK_003''"
definition LINK_INVALID_CHAIN :: pystr where "LINK_INVALID_CHAIN = py ''PB_LINK_004''"
definition LINK_HOMOGLYPH_DETECTED :: pystr where "LINK_HOMOGLYPH_DETECTED = py ''PB_LINK_007''"
definition LINK_INVALID_EXPIRY :: pystr where "LINK_INVALID_EXPIRY = py ''PB_LINK_008''"
definition X402_UNSUPPORTED_CHAIN :: pystr where "X402_UNSUPPORTED_CHAIN = py ''PB_X402_001''"
definition X402_UNSUPPORTED_TOKEN :: pystr where "X402_UNSUPPORTED_TOKEN = py ''PB_X402_002''"
definition X402_AUTHORIZATION_EXPIRED :: pystr where "X402_AUTHORIZATION_EXPIRED = py ''PB_X402_003''"
definition X402_INVALID_SIGNATURE :: pystr where "X402_INVALID_SIGNATURE = py ''PB_X402_004''"
definition BATCH_SIZE_EXCEEDED :: pystr where "BATCH_SIZE_EXCEEDED = py ''PB_BATCH_001''"
definition BATCH_VALIDATION_FAILED :: pystr where "BATCH_VALIDATION_FAILED = py ''PB_BATCH_002''"
definition VALID_REQUIRED_FIELD :: pystr where "VALID_REQUIRED_FIELD = py ''PB_VALID_001''"
definition VALID_INVALID_FORMAT :: pystr where "VALID_INVALID_FORMAT = py ''PB_VALID_002''"
definition VALID_OUT_OF_RANGE :: pystr where "VALID_OUT_OF_RANGE = py ''PB_VALID_003''"

text \<open>The first exception raised by a sequence of checks, each \<open>None\<close> when it passes.\<close>

fun first_error :: "error option list \<Rightarrow> error option" where
  "first_error [] = None"
| "first_error (None # es) = first_error es"
| "first_error (Some e # es) = Some e"

section \<open>Configuration (config.py)\<close>

definition PAYMENT_LINK_BASE_URL :: pystr where
  "PAYMENT_LINK_BASE_URL = py ''https://app.protocolbanks.com/pay''"

definition DEFAULT_TOKEN :: pystr where "DEFAULT_TOKEN = py ''USDC''"
definition DEFAULT_EXPIRY_HOURS :: int where "DEFAULT_EXPIRY_HOURS = 24"
definition MAX_EXPIRY_HOURS :: int where "MAX_EXPIRY_HOURS = 168"
definition MIN_AMOUNT :: pystr where "MIN_AMOUNT = py ''0.01''"
definition MAX_AMOUNT :: pystr where "MAX_AMOUNT = py ''1000000000''"
definition MAX_BATCH_SIZE :: nat where "MAX_BATCH_SIZE = 500"

text \<open>
  \<open>float(MIN_AMOUNT)\<close> and \<open>float(MAX_AMOUNT)\<close>: the doubles nearest to 0.01 and to
  \<open>10^9\<close> (the latter is exact).
\<close>

definition float_MIN_AMOUNT :: pyfloat where
  "float_MIN_AMOUNT = Finite (5764607523034235 / 576460752303423488)"

definition float_MAX_AMOUNT :: pyfloat where
  "float_MAX_AMOUNT = Finite 1000000000"

text \<open>A chain id is one of the integers or one of the strings of \<open>ChainId\<close>.\<close>

datatype chain_id = ChainInt int | ChainStr pystr

section \<open>Input validation (utils/validation.py)\<close>

subsection \<open>Homoglyph detection\<close>

definition CYRILLIC_HOMOGLYPHS :: "(nat \<times> pystr) list" where
  "CYRILLIC_HOMOGLYPHS =
    [(1072, py ''a''), (1077, py ''e''), (1086, py ''o''), (1088, py ''p''),
     (1089, py ''c''), (1093, py ''x''), (1091, py ''y''), (1040, py ''A''),
     (1042, py ''B''), (1045, py ''E''), (1050, py ''K''), (1052, py ''M''),
     (1053, py ''H''), (1054, py ''O''), (1056, py ''P''), (1057, py ''C''),
     (1058, py ''T''), (1061, py ''X'')]"

definition GREEK_HOMOGLYPHS :: "(nat \<times> pystr) list" where
  "GREEK_HOMOGLYPHS =
    [(913, py ''A''), (914, py ''B''), (917, py ''E''), (918, py ''Z''),
     (919, py ''H''), (921, py ''I''), (922, py ''K''), (924, py ''M''),
     (925, py ''N''), (927, py ''O''), (929, py ''P''), (932, py ''T''),
     (933, py ''Y''), (935, py ''X''), (959, py ''o'')]"

definition ALL_HOMOGLYPHS :: "(nat \<times> pystr) list" where
  "ALL_HOMOGLYPHS = CYRILLIC_HOMOGLYPHS @ GREEK_HOMOGLYPHS"

text \<open>The format \<open>U+{ord(char):04X}\<close>: upper-case hexadecimal, at least four digits.\<close>

definition hex_digit :: "nat \<Rightarrow> nat" where
  "hex_digit d = (if d < 10 then 48 + d else 55 + d)"

fun hex_upper :: "nat \<Rightarrow> pystr" where
  "hex_upper n = (if n < 16 then [hex_digit n] else hex_upper (n div 16) @ [hex_digit (n mod 16)])"

declare hex_upper.simps [simp del]

definition unicode_point :: "nat \<Rightarrow> pystr" where
  "unicode_point c =
     (let h = hex_upper c in py ''U+'' @ replicate (4 - length h) 48 @ h)"

record detected_character =
  position :: nat
  character :: nat
  unicode_point_of :: pystr
  expected_character :: pystr

record HomoglyphDetails =
  original_address :: pystr
  detected_characters :: "detected_character list"

text \<open>The loop of \<open>detect_homoglyphs\<close> over \<open>enumerate(input_str)\<close>, from position \<open>i\<close>.\<close>

fun detect_from :: "nat \<Rightarrow> pystr \<Rightarrow> detected_character list" where
  "detect_from i [] = []"
| "detect_from i (c # cs) =
     (case map_of ALL_HOMOGLYPHS c of
        None \<Rightarrow> detect_from (Suc i) cs
      | Some expected \<Rightarrow>
          (if expected \<noteq> [] then
             \<lparr>position = i, character = c, unicode_point_of = unicode_point c,
              expected_character = expected\<rparr> # detect_from (Suc i) cs
           else detect_from (Suc i) cs))"

definition detect_homoglyphs :: "pystr \<Rightarrow> HomoglyphDetails option" where
  "detect_homoglyphs input_str =
     (let detected = detect_from 0 input_str in
      if detected = [] then None
      else Some \<lparr>original_address = input_str, detected_characters = detected\<rparr>)"

definition contains_homoglyphs :: "pystr \<Rightarrow> bool" where
  "contains_homoglyphs input_str = (detect_homoglyphs input_str \<noteq> None)"

subsection \<open>Address validation\<close>

text \<open>\<open>^0x[a-fA-F0-9]{40}$\<close>\<close>

definition EVM_ADDRESS_PATTERN :: "pystr \<Rightarrow> bool" where
  "EVM_ADDRESS_PATTERN =
     re_match_dollar (\<lambda>s. length s = 42 \<and> take 2 s = py ''0x'' \<and> list_all is_hex (drop 2 s))"

text \<open>\<open>[1-9A-HJ-NP-Za-km-z]\<close>\<close>

definition is_base58 :: "nat \<Rightarrow> bool" where
  "is_base58 c =
     ((49 \<le> c \<and> c \<le> 57) \<or> (65 \<le> c \<and> c \<le> 72) \<or> (74 \<le> c \<and> c \<le> 78) \<or>
      (80 \<le> c \<and> c \<le> 90) \<or> (97 \<le> c \<and> c \<le> 107) \<or> (109 \<le> c \<and> c \<le> 122))"

text \<open>\<open>^[1-9A-HJ-NP-Za-km-z]{32,44}$\<close>\<close>

definition SOLANA_ADDRESS_PATTERN :: "pystr \<Rightarrow> bool" where
  "SOLANA_ADDRESS_PATTERN =
     re_match_dollar (\<lambda>s. 32 \<le> length s \<and> length s \<le> 44 \<and> list_all is_base58 s)"

text \<open>
  The four Bitcoin patterns: \<open>^1[a-km-zA-HJ-NP-Z1-9]{25,34}$\<close>,
  \<open>^3[a-km-zA-HJ-NP-Z1-9]{25,34}$\<close>, \<open>^bc1[a-z0-9]{39,59}$\<close> and \<open>^bc1p[a-z0-9]{58}$\<close>.
\<close>

definition is_lower_alnum :: "nat \<Rightarrow> bool" where
  "is_lower_alnum c = (is_lower_az c \<or> is_digit c)"

definition BITCOIN_PATTERNS :: "(pystr \<Rightarrow> bool) list" where
  "BITCOIN_PATTERNS =
    [re_match_dollar (\<lambda>s. take 1 s = py ''1'' \<and> 26 \<le> length s \<and> length s \<le> 35 \<and>
        list_all is_base58 (drop 1 s)),
     re_match_dollar (\<lambda>s. take 1 s = py ''3'' \<and> 26 \<le> length s \<and> length s \<le> 35 \<and>
        list_all is_base58 (drop 1 s)),
     re_match_dollar (\<lambda>s. take 3 s = py ''bc1'' \<and> 42 \<le> length s \<and> length s \<le> 62 \<and>
        list_all is_lower_alnum (drop 3 s)),
     re_match_dollar (\<lambda>s. take 4 s = py ''bc1p'' \<and> length s = 62 \<and>
        list_all is_lower_alnum (drop 4 s))]"

definition is_valid_evm_address :: "pystr \<Rightarrow> bool" where
  "is_valid_evm_address address =
     (if contains_homoglyphs address then False else EVM_ADDRESS_PATTERN address)"

definition is_valid_solana_address :: "pystr \<Rightarrow> bool" where
  "is_valid_solana_address address =
     (if contains_homoglyphs address then False else SOLANA_ADDRESS_PATTERN address)"

definition is_valid_bitcoin_address :: "pystr \<Rightarrow> bool" where
  "is_valid_bitcoin_address address =
     (if contains_homoglyphs address then False
      else list_ex (\<lambda>pattern. pattern address) BITCOIN_PATTERNS)"

definition is_valid_address :: "pystr \<Rightarrow> chain_id option \<Rightarrow> bool" where
  "is_valid_address address chain =
     (if contains_homoglyphs address then False
      else if chain = Some (ChainStr (py ''solana'')) then is_valid_solana_address address
      else if chain = Some (ChainStr (py ''bitcoin'')) then is_valid_bitcoin_address address
      else is_valid_evm_address address)"

definition validate_address :: "pystr \<Rightarrow> chain_id option \<Rightarrow> error option" where
  "validate_address address chain =
     (if detect_homoglyphs address \<noteq> None then
        Some (ProtocolBanksError LINK_HOMOGLYPH_DETECTED
                (py ''Potential homoglyph attack detected in address''))
      else if \<not> is_valid_address address chain then
        Some (ProtocolBanksError LINK_INVALID_ADDRESS
                (py ''Invalid '' @
                 (if chain = Some (ChainStr (py ''solana'')) then py ''Solana''
                  else if chain = Some (ChainStr (py ''bitcoin'')) then py ''Bitcoin''
                  else py ''EVM'') @ py '' address format''))
      else None)"

subsection \<open>Amounts, tokens, chains, expiry, memo\<close>

definition is_valid_amount :: "pylib \<Rightarrow> pystr \<Rightarrow> bool" where
  "is_valid_amount L amount =
     (case float_of_str L amount of
        None \<Rightarrow> False
      | Some num \<Rightarrow>
          if float_le num (Finite 0) then False
          else if float_less num float_MIN_AMOUNT then False
          else if float_less float_MAX_AMOUNT num then False
          else (let parts = split_chr 46 amount in
                if length parts > 1 \<and> length (parts ! 1) > 18 then False else True))"

definition validate_amount :: "pylib \<Rightarrow> pystr \<Rightarrow> error option" where
  "validate_amount L amount =
     (case float_of_str L amount of
        None \<Rightarrow> Some (ProtocolBanksError LINK_INVALID_AMOUNT (py ''Amount must be a valid number''))
      | Some num \<Rightarrow>
          if float_le num (Finite 0) then
            Some (ProtocolBanksError LINK_INVALID_AMOUNT (py ''Amount must be greater than 0''))
          else if float_less num float_MIN_AMOUNT then
            Some (ProtocolBanksError LINK_INVALID_AMOUNT
                    (py ''Amount must be at least '' @ MIN_AMOUNT))
          else if float_less float_MAX_AMOUNT num then
            Some (ProtocolBanksError LINK_INVALID_AMOUNT
                    (py ''Amount must not exceed '' @ MAX_AMOUNT))
          else None)"

definition SUPPORTED_TOKENS :: "pystr list" where
  "SUPPORTED_TOKENS =
     [py ''USDC'', py ''USDT'', py ''DAI'', py ''ETH'', py ''MATIC'', py ''BNB'', py ''SOL'',
      py ''BTC'']"

definition is_valid_token :: "pylib \<Rightarrow> pystr \<Rightarrow> bool" where
  "is_valid_token L token = (str_upper L token \<in> set SUPPORTED_TOKENS)"

definition validate_token :: "pylib \<Rightarrow> pystr \<Rightarrow> error option" where
  "validate_token L token =
     (if \<not> is_valid_token L token then
        Some (ProtocolBanksError LINK_INVALID_TOKEN (py ''Unsupported token: '' @ token))
      else None)"

definition SUPPORTED_CHAIN_IDS :: "chain_id list" where
  "SUPPORTED_CHAIN_IDS =
     [ChainInt 1, ChainInt 137, ChainInt 8453, ChainInt 42161, ChainInt 10, ChainInt 56,
      ChainStr (py ''solana''), ChainStr (py ''bitcoin'')]"

definition is_valid_chain_id :: "chain_id \<Rightarrow> bool" where
  "is_valid_chain_id chain = (chain \<in> set SUPPORTED_CHAIN_IDS)"

fun str_chain :: "chain_id \<Rightarrow> pystr" where
  "str_chain (ChainInt n) = str_int n"
| "str_chain (ChainStr s) = s"

definition validate_chain_id :: "chain_id \<Rightarrow> error option" where
  "validate_chain_id chain =
     (if \<not> is_valid_chain_id chain then
        Some (ProtocolBanksError LINK_INVALID_CHAIN (py ''Unsupported chain: '' @ str_chain chain))
      else None)"

definition is_valid_expiry_hours :: "int \<Rightarrow> bool" where
  "is_valid_expiry_hours hours = (1 \<le> hours \<and> hours \<le> MAX_EXPIRY_HOURS)"

definition validate_expiry_hours :: "int \<Rightarrow> error option" where
  "validate_expiry_hours hours =
     (if \<not> is_valid_expiry_hours hours then
        Some (ProtocolBanksError LINK_INVALID_EXPIRY
                (py ''Expiry hours must be between 1 and '' @ str_int MAX_EXPIRY_HOURS))
      else None)"

text \<open>
  \<open>is_expired\<close> compares \<open>int(time.time() * 1000)\<close>, here the argument \<open>now_ms\<close>, with the
  expiry timestamp.
\<close>

definition is_expired :: "int \<Rightarrow> int \<Rightarrow> bool" where
  "is_expired now_ms expiry_timestamp = (now_ms > expiry_timestamp)"

definition MAX_MEMO_LENGTH :: nat where "MAX_MEMO_LENGTH = 256"

definition is_valid_memo :: "pystr \<Rightarrow> bool" where
  "is_valid_memo memo = (length memo \<le> MAX_MEMO_LENGTH)"

definition validate_memo :: "pystr \<Rightarrow> error option" where
  "validate_memo memo =
     (if \<not> is_valid_memo memo then
        Some (ProtocolBanksError VALID_OUT_OF_RANGE
                (py ''Memo must not exceed '' @ str_nat MAX_MEMO_LENGTH @ py '' characters''))
      else None)"

section \<open>Gasless authorizations (modules/x402.py)\<close>

definition DEFAULT_VALIDITY_SECONDS :: int where "DEFAULT_VALIDITY_SECONDS = 3600"
definition MAX_VALIDITY_SECONDS :: int where "MAX_VALIDITY_SECONDS = 86400"

definition X402_SUPPORTED_CHAINS :: "int list" where
  "X402_SUPPORTED_CHAINS = [1, 137, 8453, 42161, 10]"

definition TOKEN_NAMES :: "(pystr \<times> pystr) list" where
  "TOKEN_NAMES =
     [(py ''USDC'', py ''USD Coin''), (py ''USDT'', py ''Tether USD''),
      (py ''DAI'', py ''Dai Stablecoin''), (py ''ETH'', py ''Ethereum''),
      (py ''MATIC'', py ''Polygon''), (py ''BNB'', py ''BNB''), (py ''SOL'', py ''Solana''),
      (py ''BTC'', py ''Bitcoin'')]"

definition USDC_ADDRESSES :: "(int \<times> pystr) list" where
  "USDC_ADDRESSES =
     [(1, py ''0xA0b86991c6218b36c1d19D4a2e9Eb0cE3606eB48''),
      (137, py ''0x3c499c542cEF5E3811e1192ce70d8cC03d5c3359''),
      (8453, py ''0x833589fCD6eDb6E08f4c7C32D4f71b54bdA02913''),
      (42161, py ''0xaf88d065e77c8cC2239327C5EDb3A432268e5831''),
      (10, py ''0x0b2C639c533813f4Aa9D7837CAf62653d097Ff85''),
      (56, py ''0x8AC76a51cc950d9822D68b83fE1Ad97B32Cd580d'')]"

record TokenConfig =
  symbol :: pystr
  token_name :: pystr
  token_address :: pystr
  decimals :: int
  supports_gasless :: bool

definition TokenConfig_of :: "pystr \<Rightarrow> pystr \<Rightarrow> pystr \<Rightarrow> int \<Rightarrow> bool \<Rightarrow> TokenConfig" where
  "TokenConfig_of s n a d g =
     \<lparr>symbol = s, token_name = n, token_address = a, decimals = d, supports_gasless = g\<rparr>"

definition usdc_address :: "int \<Rightarrow> pystr" where
  "usdc_address c = (case map_of USDC_ADDRESSES c of Some a \<Rightarrow> a | None \<Rightarrow> [])"

text \<open>
  The token lists of \<open>CHAIN_CONFIGS\<close> for the integer chain ids (an authorization's
  \<open>chain_id\<close> is an \<open>int\<close>, so the entries of Solana and Bitcoin are never looked up).
\<close>

definition CHAIN_CONFIGS :: "(int \<times> TokenConfig list) list" where
  "CHAIN_CONFIGS =
   [(1,
     [TokenConfig_of (py ''USDC'') (py ''USD Coin'') (usdc_address 1) 6 True,
      TokenConfig_of (py ''USDT'') (py ''Tether USD'')
        (py ''0xdAC17F958D2ee523a2206206994597C13D831ec7'') 6 False,
      TokenConfig_of (py ''DAI'') (py ''Dai Stablecoin'')
        (py ''0x6B175474E89094C44Da98b954EescdeCB5BE3830'') 18 True,
      TokenConfig_of (py ''ETH'') (py ''Ethereum'') (py ''native'') 18 False]),
    (137,
     [TokenConfig_of (py ''USDC'') (py ''USD Coin'') (usdc_address 137) 6 True,
      TokenConfig_of (py ''USDT'') (py ''Tether USD'')
        (py ''0xc2132D05D31c914a87C6611C10748AEb04B58e8F'') 6 False,
      TokenConfig_of (py ''DAI'') (py ''Dai Stablecoin'')
        (py ''0x8f3Cf7ad23Cd3CaDbD9735AFf958023239c6A063'') 18 True,
      TokenConfig_of (py ''MATIC'') (py ''Polygon'') (py ''native'') 18 False]),
    (8453,
     [TokenConfig_of (py ''USDC'') (py ''USD Coin'') (usdc_address 8453) 6 True,
      TokenConfig_of (py ''USDT'') (py ''Tether USD'')
        (py ''0xfde4C96c8593536E31F229EA8f37b2ADa2699bb2'') 6 False,
      TokenConfig_of (py ''ETH'') (py ''Ethereum'') (py ''native'') 18 False]),
    (42161,
     [TokenConfig_of (py ''USDC'') (py ''USD Coin'') (usdc_address 42161) 6 True,
      TokenConfig_of (py ''USDT'') (py ''Tether USD'')
        (py ''0xFd086bC7CD5C481DCC9C85ebE478A1C0b69FCbb9'') 6 False,
      TokenConfig_of (py ''DAI'') (py ''Dai Stablecoin'')
        (py ''0xDA10009cBd5D07dd0CeCc66161FC93D7c9000da1'') 18 True,
      TokenConfig_of (py ''ETH'') (py ''Ethereum'') (py ''native'') 18 False]),
    (10,
     [TokenConfig_of (py ''USDC'') (py ''USD Coin'') (usdc_address 10) 6 True,
      TokenConfig_of (py ''USDT'') (py ''Tether USD'')
        (py ''0x94b008aA00579c1307B0EF2c499aD98a8ce58e58'') 6 False,
      TokenConfig_of (py ''DAI'') (py ''Dai Stablecoin'')
        (py ''0xDA10009cBd5D07dd0CeCc66161FC93D7c9000da1'') 18 True,
      TokenConfig_of (py ''ETH'') (py ''Ethereum'') (py ''native'') 18 False]),
    (56,
     [TokenConfig_of (py ''USDC'') (py ''USD Coin'') (usdc_address 56) 18 False,
      TokenConfig_of (py ''USDT'') (py ''Tether USD'')
        (py ''0x55d398326f99059fF775485246999027B3197955'') 18 False,
      TokenConfig_of (py ''DAI'') (py ''Dai Stablecoin'')
        (py ''0x1AF3F329e8BE154074D8769D1FFa4eE058B1DBc3'') 18 False,
      TokenConfig_of (py ''BNB'') (py ''BNB'') (py ''native'') 18 False])]"

definition get_chain_tokens :: "int \<Rightarrow> TokenConfig list" where
  "get_chain_tokens c = (case map_of CHAIN_CONFIGS c of Some ts \<Rightarrow> ts | None \<Rightarrow> [])"

definition get_token_config :: "int \<Rightarrow> pystr \<Rightarrow> TokenConfig option" where
  "get_token_config c token = find (\<lambda>t. symbol t = token) (get_chain_tokens c)"

text \<open>
  \<open>parse_amount\<close> catches \<open>ValueError\<close> and \<open>TypeError\<close> only: \<open>int\<close> of a NaN is
  caught, \<open>int\<close> of an infinity raises \<open>OverflowError\<close>.
\<close>

definition parse_amount :: "pylib \<Rightarrow> pystr \<Rightarrow> int \<Rightarrow> error + pystr" where
  "parse_amount L amount d =
     (case float_of_str L amount of
        None \<Rightarrow> Inr (py ''0'')
      | Some NaN \<Rightarrow> Inr (py ''0'')
      | Some (Finite v) \<Rightarrow> Inr (str_int (int_of_scaled L v d))
      | Some _ \<Rightarrow> Inl (OtherException (py ''OverflowError'')))"

record EIP712Domain =
  domain_name :: pystr
  version :: pystr
  domain_chain_id :: int
  verifying_contract :: pystr

record TransferWithAuthorizationMessage =
  from_address :: pystr
  msg_to :: pystr
  msg_value :: pystr
  valid_after :: int
  valid_before :: int
  msg_nonce :: pystr

record X402AuthorizationParams =
  x_to :: pystr
  x_amount :: pystr
  x_token :: pystr
  x_chain_id :: int
  valid_for :: "int option"

text \<open>
  The record of an authorization (its \<open>types\<close> field is the constant table
  \<open>TRANSFER_WITH_AUTHORIZATION_TYPES\<close> and is left out). \<open>created_at\<close> and
  \<open>expires_at\<close> are \<open>datetime\<close>s, in microseconds.
\<close>

record X402Authorization =
  auth_id :: pystr
  domain :: EIP712Domain
  message :: TransferWithAuthorizationMessage
  status :: pystr
  transaction_hash :: "pystr option"
  created_at :: int
  expires_at :: int
  auth_signature :: "pystr option"
  relayer_fee :: "pystr option"

text \<open>\<open>datetime.fromtimestamp(seconds)\<close> for an integer number of seconds.\<close>

definition datetime_of_seconds :: "int \<Rightarrow> int" where
  "datetime_of_seconds t = t * 1000000"

text \<open>The module's state: the dictionary \<open>_authorizations\<close>.\<close>

type_synonym x402_store = "pystr \<rightharpoonup> X402Authorization"

definition is_chain_supported :: "int \<Rightarrow> bool" where
  "is_chain_supported c = (c \<in> set X402_SUPPORTED_CHAINS)"

definition is_token_supported :: "int \<Rightarrow> pystr \<Rightarrow> bool" where
  "is_token_supported c token =
     (if \<not> is_chain_supported c then False
      else (case get_token_config c token of
              Some token_config \<Rightarrow> supports_gasless token_config
            | None \<Rightarrow> False))"

definition x402_validate_params :: "pylib \<Rightarrow> X402AuthorizationParams \<Rightarrow> error option" where
  "x402_validate_params L params =
     first_error
       [validate_address (x_to params) (Some (ChainInt (x_chain_id params))),
        validate_amount L (x_amount params),
        validate_token L (x_token params),
        (case valid_for params of
           None \<Rightarrow> None
         | Some v \<Rightarrow>
             if v < 60 \<or> v > MAX_VALIDITY_SECONDS then
               Some (ProtocolBanksError VALID_OUT_OF_RANGE
                       (py ''valid_for must be between 60 and '' @ str_int MAX_VALIDITY_SECONDS
                        @ py '' seconds''))
             else None)]"

definition get_token_address :: "int \<Rightarrow> pystr \<Rightarrow> pystr" where
  "get_token_address c token =
     (if token = py ''USDC'' then usdc_address c
      else (case get_token_config c token of
              Some token_config \<Rightarrow> token_address token_config
            | None \<Rightarrow> []))"

text \<open>
  \<open>create_authorization\<close>. \<open>now\<close> is \<open>int(time.time())\<close>, \<open>created\<close> is
  \<open>datetime.now()\<close>, \<open>uuid\<close> and \<open>nonce\<close> are the results of \<open>generate_uuid()\<close> and
  \<open>generate_nonce()\<close>. The request to the backend that follows the store is best effort:
  its failure is discarded and its answer is not read, so it does not appear. The result
  is the returned authorization or the raised exception, with the store after the call.
\<close>

definition create_authorization ::
  "pylib \<Rightarrow> int \<Rightarrow> int \<Rightarrow> pystr \<Rightarrow> pystr \<Rightarrow> x402_store \<Rightarrow> X402AuthorizationParams
     \<Rightarrow> (error + X402Authorization) \<times> x402_store" where
  "create_authorization L now created uuid nonce st params =
     (case x402_validate_params L params of
        Some e \<Rightarrow> (Inl e, st)
      | None \<Rightarrow>
        if \<not> is_chain_supported (x_chain_id params) then
          (Inl (ProtocolBanksError X402_UNSUPPORTED_CHAIN
                  (py ''Chain '' @ str_int (x_chain_id params)
                   @ py '' does not support x402 gasless payments'')), st)
        else if \<not> is_token_supported (x_chain_id params) (x_token params) then
          (Inl (ProtocolBanksError X402_UNSUPPORTED_TOKEN
                  (py ''Token '' @ x_token params @ py '' does not support x402 on chain ''
                   @ str_int (x_chain_id params))), st)
        else
          (case get_token_config (x_chain_id params) (x_token params) of
             None \<Rightarrow>
               (Inl (ProtocolBanksError X402_UNSUPPORTED_TOKEN
                       (py ''Token '' @ x_token params @ py '' not found on chain ''
                        @ str_int (x_chain_id params))), st)
           | Some token_config \<Rightarrow>
               (let requested =
                      (case valid_for params of
                         None \<Rightarrow> DEFAULT_VALIDITY_SECONDS
                       | Some v \<Rightarrow> if v \<noteq> 0 then v else DEFAULT_VALIDITY_SECONDS);
                    validity = min requested MAX_VALIDITY_SECONDS;
                    v_after = now;
                    v_before = now + validity;
                    token_addr = get_token_address (x_chain_id params) (x_token params);
                    dom = \<lparr>domain_name =
                             (case map_of TOKEN_NAMES (x_token params) of
                                Some n \<Rightarrow> n | None \<Rightarrow> x_token params),
                           version = py ''2'',
                           domain_chain_id = x_chain_id params,
                           verifying_contract = token_addr\<rparr>
                in case parse_amount L (x_amount params) (decimals token_config) of
                     Inl e \<Rightarrow> (Inl e, st)
                   | Inr v \<Rightarrow>
                       (let msg = \<lparr>from_address = [], msg_to = x_to params, msg_value = v,
                                   valid_after = v_after, valid_before = v_before,
                                   msg_nonce = nonce\<rparr>;
                            aid = py ''x402_'' @ filter (\<lambda>c. c \<noteq> 45) uuid;
                            authorization =
                              \<lparr>auth_id = aid, domain = dom, message = msg,
                               status = py ''pending'', transaction_hash = None,
                               created_at = created,
                               expires_at = datetime_of_seconds v_before,
                               auth_signature = None, relayer_fee = None\<rparr>
                        in (Inr authorization, st(aid \<mapsto> authorization))))))"

text \<open>\<open>_is_expired\<close>: \<open>clock\<close> is \<open>datetime.now()\<close>.\<close>

definition x402_is_expired :: "int \<Rightarrow> X402Authorization \<Rightarrow> bool" where
  "x402_is_expired clock auth = (clock > expires_at auth)"

text \<open>\<open>^0x[a-fA-F0-9]{130}$\<close>\<close>

definition is_valid_signature :: "pystr \<Rightarrow> bool" where
  "is_valid_signature sg =
     re_match_dollar
       (\<lambda>s. length s = 132 \<and> take 2 s = py ''0x'' \<and> list_all is_hex (drop 2 s)) sg"

text \<open>
  The answer of the relayer to \<open>POST /x402/submit\<close>: the \<open>status\<close> and the
  \<open>transaction_hash\<close> of the returned dictionary, each absent or a string.
\<close>

record relay_response =
  resp_status :: "pystr option"
  resp_transaction_hash :: "pystr option"

text \<open>
  \<open>submit_signature\<close>. \<open>relay\<close> is the outcome of the request to the relayer (an
  exception or its answer) and \<open>clock\<close> is \<open>datetime.now()\<close>. The authorization
  object is shared with the store, so every assignment to it is an update of the store.
\<close>

definition submit_signature ::
  "(error + relay_response) \<Rightarrow> int \<Rightarrow> x402_store \<Rightarrow> pystr \<Rightarrow> pystr
     \<Rightarrow> (error + X402Authorization) \<times> x402_store" where
  "submit_signature relay clock st aid sg =
     (case st aid of
        None \<Rightarrow>
          (Inl (ProtocolBanksError X402_AUTHORIZATION_EXPIRED
                  (py ''Authorization not found or expired'')), st)
      | Some auth \<Rightarrow>
          if x402_is_expired clock auth then
            (Inl (ProtocolBanksError X402_AUTHORIZATION_EXPIRED
                    (py ''Authorization has expired'')),
             st(aid \<mapsto> auth\<lparr>status := py ''expired''\<rparr>))
          else if \<not> is_valid_signature sg then
            (Inl (ProtocolBanksError X402_INVALID_SIGNATURE (py ''Invalid signature format'')),
             st)
          else
            (let signed = auth\<lparr>status := py ''signed'', auth_signature := Some sg\<rparr> in
             case relay of
               Inl e \<Rightarrow> (Inl e, st(aid \<mapsto> signed\<lparr>status := py ''failed''\<rparr>))
             | Inr response \<Rightarrow>
                 (let submitted =
                        signed\<lparr>status :=
                                 (case resp_status response of
                                    Some s \<Rightarrow> s | None \<Rightarrow> py ''submitted''),
                               transaction_hash := resp_transaction_hash response\<rparr>
                  in (Inr submitted, st(aid \<mapsto> submitted)))))"

section \<open>Webhooks (modules/webhooks.py)\<close>

definition DEFAULT_TIMESTAMP_TOLERANCE :: int where "DEFAULT_TIMESTAMP_TOLERANCE = 300"

definition SUPPORTED_EVENT_TYPES :: "pystr list" where
  "SUPPORTED_EVENT_TYPES =
     [py ''payment.created'', py ''payment.completed'', py ''payment.failed'',
      py ''payment.expired'', py ''batch.created'', py ''batch.processing'',
      py ''batch.completed'', py ''batch.failed'', py ''x402.created'', py ''x402.signed'',
      py ''x402.executed'', py ''x402.failed'', py ''x402.expired'']"

record WebhookEvent =
  event_id :: pystr
  event_type :: pystr
  event_timestamp :: int
  event_data :: "(pystr \<times> json) list"
  event_signature :: pystr

record WebhookVerificationResult =
  wh_valid :: bool
  event :: "WebhookEvent option"
  wh_error :: "pystr option"
  timestamp_valid :: "bool option"

text \<open>\<open>hmac_sign\<close> and \<open>constant_time_equal\<close> of utils/crypto.py.\<close>

definition hmac_sign :: "pylib \<Rightarrow> pystr \<Rightarrow> pystr \<Rightarrow> pystr" where
  "hmac_sign L data secret = hmac_hexdigest L secret data"

definition constant_time_equal :: "pystr \<Rightarrow> pystr \<Rightarrow> bool" where
  "constant_time_equal a b = (a = b)"

definition generate_signature_sync :: "pylib \<Rightarrow> pystr \<Rightarrow> pystr \<Rightarrow> int \<Rightarrow> pystr" where
  "generate_signature_sync L payload secret timestamp =
     hmac_sign L (str_int timestamp @ py ''.'' @ payload) secret"

text \<open>
  One step of the loop of \<open>_parse_signature_header\<close> over the parts of the header; the
  state is the pair \<open>(timestamp, sig)\<close>, and \<open>None\<close> once \<open>int(value)\<close> has raised.
\<close>

definition header_part :: "pylib \<Rightarrow> (int \<times> pystr) option \<Rightarrow> pystr \<Rightarrow> (int \<times> pystr) option" where
  "header_part L acc part =
     (case acc of
        None \<Rightarrow> None
      | Some (timestamp, sg) \<Rightarrow>
          if 61 \<in> set part then
            (let (key, val) = split_first 61 part in
             if key = py ''t'' then
               (case int_of_str L val of None \<Rightarrow> None | Some t \<Rightarrow> Some (t, sg))
             else if key = py ''v1'' then Some (timestamp, val)
             else Some (timestamp, sg))
          else Some (timestamp, sg))"

definition parse_signature_header :: "pylib \<Rightarrow> pystr \<Rightarrow> (int \<times> pystr) option" where
  "parse_signature_header L header =
     (case foldl (header_part L) (Some (0, [])) (split_chr 44 header) of
        None \<Rightarrow> None
      | Some (timestamp, sg) \<Rightarrow> if timestamp = 0 \<or> sg = [] then None else Some (timestamp, sg))"

definition is_valid_event_type :: "json \<Rightarrow> bool" where
  "is_valid_event_type t = (case t of JStr s \<Rightarrow> s \<in> set SUPPORTED_EVENT_TYPES | _ \<Rightarrow> False)"

text \<open>\<open>d.get(key)\<close> on a parsed object.\<close>

definition json_get :: "(pystr \<times> json) list \<Rightarrow> pystr \<Rightarrow> json" where
  "json_get kvs k = (case map_of kvs k of Some v \<Rightarrow> v | None \<Rightarrow> JNull)"

text \<open>
  The timestamp of an event: \<open>isinstance(value, (int, float))\<close> holds of integers, floats
  and booleans; \<open>clock\<close> is \<open>datetime.now()\<close>.
\<close>

definition parse_event_timestamp :: "pylib \<Rightarrow> int \<Rightarrow> json \<Rightarrow> error + int" where
  "parse_event_timestamp L clock v =
     (let num = (case fromtimestamp L v of
                   Some t \<Rightarrow> Inr t | None \<Rightarrow> Inl (OtherException (py ''fromtimestamp'')))
      in case v of
           JInt i \<Rightarrow> num
         | JFloat f \<Rightarrow> num
         | JBool b \<Rightarrow> num
         | JStr s \<Rightarrow>
             (case fromisoformat L (replace_str (py ''Z'') (py ''+00:00'') s) of
                Some t \<Rightarrow> Inr t | None \<Rightarrow> Inl (OtherException (py ''fromisoformat'')))
         | _ \<Rightarrow> Inr clock)"

text \<open>
  \<open>WebhookModule.parse\<close>. A payload that is valid JSON but not an object has no \<open>get\<close>
  (\<open>AttributeError\<close>); the constructor of \<open>WebhookEvent\<close> checks the types of the fields.
\<close>

definition parse :: "pylib \<Rightarrow> int \<Rightarrow> pystr \<Rightarrow> error + WebhookEvent" where
  "parse L clock payload =
     (case json_loads L payload of
        None \<Rightarrow>
          Inl (ProtocolBanksError VALID_INVALID_FORMAT (py ''Invalid webhook payload JSON''))
      | Some (JObj kvs) \<Rightarrow>
          if \<not> truthy (json_get kvs (py ''id'')) \<or> \<not> truthy (json_get kvs (py ''type'')) then
            Inl (ProtocolBanksError VALID_REQUIRED_FIELD
                   (py ''Webhook payload missing required fields (id, type)''))
          else if \<not> is_valid_event_type (json_get kvs (py ''type'')) then
            Inl (ProtocolBanksError VALID_INVALID_FORMAT
                   (py ''Unknown webhook event type: ''
                    @ (case json_get kvs (py ''type'') of JStr s \<Rightarrow> s | _ \<Rightarrow> [])))
          else
            (case parse_event_timestamp L clock (json_get kvs (py ''timestamp'')) of
               Inl e \<Rightarrow> Inl e
             | Inr ts \<Rightarrow>
                 (case (json_get kvs (py ''id''), json_get kvs (py ''type''),
                        (case map_of kvs (py ''data'') of Some d \<Rightarrow> d | None \<Rightarrow> JObj []),
                        (case map_of kvs (py ''signature'') of Some g \<Rightarrow> g | None \<Rightarrow> JStr []))
                  of (JStr i, JStr t, JObj d, JStr g) \<Rightarrow>
                       Inr \<lparr>event_id = i, event_type = t, event_timestamp = ts,
                            event_data = d, event_signature = g\<rparr>
                   | _ \<Rightarrow> Inl PydanticValidationError))
      | Some _ \<Rightarrow> Inl (OtherException (py ''AttributeError'')))"

text \<open>
  \<open>WebhookModule.verify\<close>: \<open>now\<close> is \<open>int(time.time())\<close> and \<open>clock\<close> is the
  \<open>datetime.now()\<close> read by \<open>parse\<close>.
\<close>

definition webhook_verify ::
  "pylib \<Rightarrow> int \<Rightarrow> int \<Rightarrow> pystr \<Rightarrow> pystr \<Rightarrow> pystr \<Rightarrow> int \<Rightarrow> WebhookVerificationResult" where
  "webhook_verify L now clock payload signature secret tolerance =
     (case parse_signature_header L signature of
        None \<Rightarrow>
          \<lparr>wh_valid = False, event = None, wh_error = Some (py ''Invalid signature format''),
           timestamp_valid = None\<rparr>
      | Some (timestamp, sg) \<Rightarrow>
          if \<not> (\<bar>now - timestamp\<bar> \<le> tolerance) then
            \<lparr>wh_valid = False, event = None,
             wh_error = Some (py ''Webhook timestamp is outside tolerance window''),
             timestamp_valid = Some False\<rparr>
          else if \<not> constant_time_equal sg (generate_signature_sync L payload secret timestamp)
          then
            \<lparr>wh_valid = False, event = None, wh_error = Some (py ''Invalid webhook signature''),
             timestamp_valid = Some True\<rparr>
          else
            (case parse L clock payload of
               Inl e \<Rightarrow>
                 \<lparr>wh_valid = False, event = None, wh_error = Some (str_error e),
                  timestamp_valid = None\<rparr>
             | Inr ev \<Rightarrow>
                 \<lparr>wh_valid = True, event = Some ev, wh_error = None,
                  timestamp_valid = Some True\<rparr>))"

text \<open>\<open>WebhookModule.sign\<close>: \<open>timestamp or int(time.time())\<close>.\<close>

definition webhook_sign :: "pylib \<Rightarrow> int \<Rightarrow> pystr \<Rightarrow> pystr \<Rightarrow> int option \<Rightarrow> pystr" where
  "webhook_sign L now payload secret timestamp =
     (let ts = (case timestamp of Some t \<Rightarrow> if t \<noteq> 0 then t else now | None \<Rightarrow> now)
      in py ''t='' @ str_int ts @ py '',v1='' @ generate_signature_sync L payload secret ts)"

section \<open>Payment links (utils/crypto.py, modules/links.py)\<close>

subsection \<open>The signature of utils/crypto.py\<close>

definition hmac_sign_short :: "pylib \<Rightarrow> pystr \<Rightarrow> pystr \<Rightarrow> pystr" where
  "hmac_sign_short L data secret = take 16 (hmac_sign L data secret)"

text \<open>
  The dictionary \<open>normalized\<close> in the order it is written, and the canonical string
  \<open>"&".join(f"{k}={v}" for k, v in sorted(normalized.items()))\<close>. The keys are distinct,
  so sorting the items is sorting by key.
\<close>

definition normalized ::
  "pylib \<Rightarrow> pystr \<Rightarrow> pystr \<Rightarrow> pystr \<Rightarrow> int \<Rightarrow> pystr option \<Rightarrow> (pystr \<times> pystr) list" where
  "normalized L to_addr amt tok expiry mem =
     [(py ''amount'', amt),
      (py ''expiry'', str_int expiry),
      (py ''memo'', (if truthy_str mem then the mem else [])),
      (py ''to'', str_lower L to_addr),
      (py ''token'', str_upper L tok)]"

definition canonical_string :: "(pystr \<times> pystr) list \<Rightarrow> pystr" where
  "canonical_string items =
     join (py ''&'') (map (\<lambda>(k, v). k @ py ''='' @ v) (sort_key fst items))"

definition generate_payment_link_signature ::
  "pylib \<Rightarrow> pystr \<Rightarrow> pystr \<Rightarrow> pystr \<Rightarrow> int \<Rightarrow> pystr \<Rightarrow> pystr option \<Rightarrow> pystr" where
  "generate_payment_link_signature L to_addr amt tok expiry secret mem =
     hmac_sign_short L (canonical_string (normalized L to_addr amt tok expiry mem)) secret"

subsection \<open>The module\<close>

record PaymentLinkParams =
  to :: pystr
  amount :: pystr
  token :: "pystr option"
  chain :: "chain_id option"
  expiry_hours :: "int option"
  memo :: "pystr option"
  order_id :: "pystr option"
  callback_url :: "pystr option"
  webhook_url :: "pystr option"
  allowed_chains :: "chain_id list option"
  allowed_tokens :: "pystr list option"
  metadata :: "(pystr \<times> pystr) list option"

record PaymentLink =
  url :: pystr
  short_url :: pystr
  link_params :: PaymentLinkParams
  signature :: pystr
  link_expires_at :: int
  link_created_at :: int
  payment_id :: pystr

record LinkVerificationResult =
  valid :: bool
  expired :: bool
  tampered_fields :: "pystr list"
  result_params :: "PaymentLinkParams option"
  error :: "pystr option"
  homoglyph_detected :: "bool option"
  homoglyph_details :: "HomoglyphDetails option"

text \<open>The state of a \<open>PaymentLinkModule\<close>, set by its constructor.\<close>

record PaymentLinkModule =
  api_secret :: pystr
  base_url :: pystr

definition PaymentLinkModule_init :: "pystr \<Rightarrow> pystr option \<Rightarrow> PaymentLinkModule" where
  "PaymentLinkModule_init secret base =
     \<lparr>api_secret = secret,
      base_url = (if truthy_str base then the base else PAYMENT_LINK_BASE_URL)\<rparr>"

text \<open>Truthiness of an optional chain id: \<open>None\<close>, \<open>0\<close> and \<open>""\<close> are falsy.\<close>

fun truthy_chain :: "chain_id option \<Rightarrow> bool" where
  "truthy_chain None = False"
| "truthy_chain (Some (ChainInt n)) = (n \<noteq> 0)"
| "truthy_chain (Some (ChainStr s)) = (s \<noteq> [])"

fun truthy_list :: "'a list option \<Rightarrow> bool" where
  "truthy_list None = False"
| "truthy_list (Some xs) = (xs \<noteq> [])"

definition simple_hash :: "pylib \<Rightarrow> pystr \<Rightarrow> pystr" where
  "simple_hash L s = sha256_hexdigest L s"

text \<open>\<open>PaymentLinkModule._generate_signature\<close>\<close>

definition generate_signature ::
  "pylib \<Rightarrow> PaymentLinkModule \<Rightarrow> pystr \<Rightarrow> pystr \<Rightarrow> pystr \<Rightarrow> int \<Rightarrow> pystr option \<Rightarrow> pystr" where
  "generate_signature L m to_addr amt tok expiry mem =
     take 16 (simple_hash L
                (canonical_string (normalized L to_addr amt tok expiry mem) @ api_secret m))"

text \<open>\<open>PaymentLinkModule._validate_params\<close>\<close>

definition validate_params :: "pylib \<Rightarrow> PaymentLinkParams \<Rightarrow> error option" where
  "validate_params L params =
     first_error
       [validate_address (to params) (chain params),
        validate_amount L (amount params),
        (if truthy_str (token params) then validate_token L (the (token params)) else None),
        (if truthy_chain (chain params) then validate_chain_id (the (chain params)) else None),
        (case expiry_hours params of Some h \<Rightarrow> validate_expiry_hours h | None \<Rightarrow> None),
        (if truthy_str (memo params) then validate_memo (the (memo params)) else None),
        (if truthy_list (allowed_chains params)
         then first_error (map validate_chain_id (the (allowed_chains params))) else None),
        (if truthy_list (allowed_tokens params)
         then first_error (map (validate_token L) (the (allowed_tokens params))) else None)]"

text \<open>The dictionary \<open>query_params\<close> of \<open>_build_url\<close>, in insertion order.\<close>

definition query_params ::
  "PaymentLinkParams \<Rightarrow> pystr \<Rightarrow> int \<Rightarrow> pystr \<Rightarrow> pystr \<Rightarrow> (pystr \<times> pystr) list" where
  "query_params params tok expiry sg pid =
     [(py ''to'', to params), (py ''amount'', amount params), (py ''token'', tok),
      (py ''exp'', str_int expiry), (py ''sig'', sg), (py ''id'', pid)]
     @ (if truthy_chain (chain params)
        then [(py ''chain'', str_chain (the (chain params)))] else [])
     @ (if truthy_str (memo params) then [(py ''memo'', the (memo params))] else [])
     @ (if truthy_str (order_id params) then [(py ''orderId'', the (order_id params))] else [])
     @ (if truthy_str (callback_url params)
        then [(py ''callback'', the (callback_url params))] else [])
     @ (if truthy_list (allowed_chains params)
        then [(py ''chains'', join (py '','') (map str_chain (the (allowed_chains params))))]
        else [])
     @ (if truthy_list (allowed_tokens params)
        then [(py ''tokens'', join (py '','') (the (allowed_tokens params)))] else [])"

definition build_url ::
  "pylib \<Rightarrow> PaymentLinkModule \<Rightarrow> PaymentLinkParams \<Rightarrow> pystr \<Rightarrow> int \<Rightarrow> pystr \<Rightarrow> pystr \<Rightarrow> pystr"
  where
  "build_url L m params tok expiry sg pid =
     base_url m @ py ''?'' @ urlencode L (query_params params tok expiry sg pid)"

text \<open>
  \<open>PaymentLinkModule.generate\<close> on a \<open>PaymentLinkParams\<close> object. \<open>now\<close> is
  \<open>datetime.now()\<close> in microseconds, so that \<open>int(now.timestamp() * 1000)\<close> is
  \<open>now div 1000\<close>; \<open>uuid\<close> is the result of \<open>generate_uuid()\<close>.
\<close>

definition generate ::
  "pylib \<Rightarrow> PaymentLinkModule \<Rightarrow> int \<Rightarrow> pystr \<Rightarrow> PaymentLinkParams \<Rightarrow> error + PaymentLink" where
  "generate L m now uuid params =
     (case validate_params L params of
        Some e \<Rightarrow> Inl e
      | None \<Rightarrow>
          (let tok = (if truthy_str (token params) then the (token params) else DEFAULT_TOKEN);
               hours = (case expiry_hours params of
                          Some h \<Rightarrow> if h \<noteq> 0 then h else DEFAULT_EXPIRY_HOURS
                        | None \<Rightarrow> DEFAULT_EXPIRY_HOURS);
               now_ms = now div 1000;
               expiry_ms = now_ms + hours * 60 * 60 * 1000;
               pid = py ''pay_'' @ replace_str (py ''-'') [] uuid;
               sg = generate_signature L m (to params) (amount params) tok expiry_ms (memo params)
           in Inr \<lparr>url = build_url L m params tok expiry_ms sg pid,
                   short_url = replace_str (py ''/pay'') [] (base_url m) @ py ''/p/''
                               @ take 8 (drop 4 pid),
                   link_params = params\<lparr>token := Some tok, expiry_hours := Some hours\<rparr>,
                   signature = sg,
                   link_expires_at = expiry_ms * 1000,
                   link_created_at = now,
                   payment_id = pid\<rparr>))"

text \<open>
  \<open>query.get(key, [default])[0]\<close>: the first value of a key of the parsed query, the
  default when the key is absent; the outer \<open>None\<close> is the \<open>IndexError\<close> of an empty list.
\<close>

definition first_value ::
  "(pystr \<times> pystr list) list \<Rightarrow> pystr \<Rightarrow> pystr option \<Rightarrow> pystr option option" where
  "first_value query k dflt =
     (case map_of query k of
        None \<Rightarrow> Some dflt
      | Some [] \<Rightarrow> None
      | Some (v # vs) \<Rightarrow> Some (Some v))"

text \<open>The literal types \<open>TokenSymbol\<close> and \<open>ChainId\<close> of types.py, checked by pydantic.\<close>

definition TokenSymbol :: "pystr list" where
  "TokenSymbol =
     [py ''USDC'', py ''USDT'', py ''DAI'', py ''ETH'', py ''MATIC'', py ''BNB'', py ''SOL'',
      py ''BTC'']"

definition ChainId :: "chain_id list" where
  "ChainId =
     [ChainInt 1, ChainInt 137, ChainInt 8453, ChainInt 42161, ChainInt 10, ChainInt 56,
      ChainStr (py ''solana''), ChainStr (py ''bitcoin'')]"

definition parse_chain :: "pylib \<Rightarrow> pystr \<Rightarrow> chain_id" where
  "parse_chain L c = (case int_of_str L c of Some n \<Rightarrow> ChainInt n | None \<Rightarrow> ChainStr c)"

text \<open>
  \<open>PaymentLinkModule._parse_url\<close>; \<open>now_ms\<close> is \<open>int(datetime.now().timestamp() * 1000)\<close>.
  Every exception is caught and gives \<open>None\<close>, as a missing field does.
\<close>

definition parse_url ::
  "pylib \<Rightarrow> int \<Rightarrow> pystr \<Rightarrow> (PaymentLinkParams \<times> pystr \<times> int) option" where
  "parse_url L now_ms u =
     do {
       query \<leftarrow> qs_of_url L u;
       to_v \<leftarrow> first_value query (py ''to'') None;
       amount_v \<leftarrow> first_value query (py ''amount'') None;
       sig_v \<leftarrow> first_value query (py ''sig'') None;
       expiry_str \<leftarrow> first_value query (py ''exp'') None;
       if \<not> truthy_str to_v \<or> \<not> truthy_str amount_v \<or> \<not> truthy_str sig_v
          \<or> \<not> truthy_str expiry_str
       then None
       else do {
         expiry \<leftarrow> int_of_str L (the expiry_str);
         token_v \<leftarrow> first_value query (py ''token'') (Some DEFAULT_TOKEN);
         chain_str \<leftarrow> first_value query (py ''chain'') None;
         memo_v \<leftarrow> first_value query (py ''memo'') None;
         order_v \<leftarrow> first_value query (py ''orderId'') None;
         callback_v \<leftarrow> first_value query (py ''callback'') None;
         chains_str \<leftarrow> first_value query (py ''chains'') None;
         tokens_str \<leftarrow> first_value query (py ''tokens'') None;
         let chain_v = (if truthy_str chain_str then Some (parse_chain L (the chain_str))
                        else None);
             chains_v = (if truthy_str chains_str
                         then Some (map (parse_chain L) (split_chr 44 (the chains_str)))
                         else None);
             tokens_v = (if truthy_str tokens_str then Some (split_chr 44 (the tokens_str))
                         else None);
             hours = max 1 ((expiry - now_ms) div (60 * 60 * 1000))
         in if (case token_v of Some t \<Rightarrow> t \<in> set TokenSymbol | None \<Rightarrow> True)
               \<and> (case chain_v of Some c \<Rightarrow> c \<in> set ChainId | None \<Rightarrow> True)
               \<and> (case chains_v of Some cs \<Rightarrow> list_all (\<lambda>c. c \<in> set ChainId) cs | None \<Rightarrow> True)
               \<and> (case tokens_v of Some ts \<Rightarrow> list_all (\<lambda>t. t \<in> set TokenSymbol) ts
                   | None \<Rightarrow> True)
            then Some (\<lparr>to = the to_v, amount = the amount_v, token = token_v, chain = chain_v,
                        expiry_hours = Some hours, memo = memo_v, order_id = order_v,
                        callback_url = callback_v, webhook_url = None,
                        allowed_chains = chains_v, allowed_tokens = tokens_v,
                        metadata = None\<rparr>,
                       the sig_v, expiry)
            else None
       }
     }"

text \<open>
  \<open>PaymentLinkModule.verify\<close>. The clock is read twice: \<open>parse_ms\<close> in \<open>_parse_url\<close> and
  \<open>check_ms\<close> in \<open>is_expired\<close>, both in milliseconds.
\<close>

definition verify ::
  "pylib \<Rightarrow> PaymentLinkModule \<Rightarrow> int \<Rightarrow> int \<Rightarrow> pystr \<Rightarrow> LinkVerificationResult" where
  "verify L m parse_ms check_ms u =
     (case parse_url L parse_ms u of
        None \<Rightarrow>
          \<lparr>valid = False, expired = False, tampered_fields = [], result_params = None,
           error = Some (py ''Invalid payment link URL format''), homoglyph_detected = None,
           homoglyph_details = None\<rparr>
      | Some (params, sg, expiry) \<Rightarrow>
          (case detect_homoglyphs (to params) of
             Some details \<Rightarrow>
               \<lparr>valid = False, expired = False, tampered_fields = [py ''to''],
                result_params = Some params,
                error = Some (py ''Homoglyph attack detected in address''),
                homoglyph_detected = Some True, homoglyph_details = Some details\<rparr>
           | None \<Rightarrow>
               (let is_exp = is_expired check_ms expiry;
                    expected_signature =
                      generate_signature L m (to params) (amount params)
                        (if truthy_str (token params) then the (token params) else DEFAULT_TOKEN)
                        expiry (memo params);
                    signature_valid = (sg = expected_signature)
                in \<lparr>valid = (signature_valid \<and> \<not> is_exp), expired = is_exp,
                    tampered_fields = (if \<not> signature_valid then [py ''signature''] else []),
                    result_params = Some params,
                    error = (if is_exp then Some (py ''Payment link has expired'')
                             else if \<not> signature_valid
                             then Some (py ''Payment link signature is invalid'') else None),
                    homoglyph_detected = None, homoglyph_details = None\<rparr>)))"

section \<open>Batch validation (modules/batch.py)\<close>

record BatchRecipient =
  address :: pystr
  r_amount :: pystr
  r_token :: pystr
  r_memo :: "pystr option"
  r_order_id :: "pystr option"

record BatchValidationError =
  index :: nat
  bve_address :: pystr
  errors :: "pystr list"

text \<open>
  An entry of the argument of \<open>validate\<close> is a \<open>BatchRecipient\<close> or a dictionary, which
  \<open>BatchRecipient(**r)\<close> converts: \<open>address\<close>, \<open>amount\<close> and \<open>token\<close> are required
  strings, \<open>token\<close> one of \<open>TokenSymbol\<close>; \<open>memo\<close> and \<open>order_id\<close> are optional strings;
  other keys are ignored. \<open>None\<close> is pydantic's \<open>ValidationError\<close>.
\<close>

datatype pyval = VNone | VStr pystr | VInt int

datatype recipient_input = Model BatchRecipient | Dict "(pystr \<times> pyval) list"

definition required_str :: "(pystr \<times> pyval) list \<Rightarrow> pystr \<Rightarrow> pystr option" where
  "required_str d k = (case map_of d k of Some (VStr s) \<Rightarrow> Some s | _ \<Rightarrow> None)"

definition optional_str :: "(pystr \<times> pyval) list \<Rightarrow> pystr \<Rightarrow> pystr option option" where
  "optional_str d k =
     (case map_of d k of
        None \<Rightarrow> Some None
      | Some VNone \<Rightarrow> Some None
      | Some (VStr s) \<Rightarrow> Some (Some s)
      | Some _ \<Rightarrow> None)"

fun to_BatchRecipient :: "recipient_input \<Rightarrow> BatchRecipient option" where
  "to_BatchRecipient (Model r) = Some r"
| "to_BatchRecipient (Dict d) =
     do {
       a \<leftarrow> required_str d (py ''address'');
       m \<leftarrow> required_str d (py ''amount'');
       t \<leftarrow> required_str d (py ''token'');
       mem \<leftarrow> optional_str d (py ''memo'');
       oid \<leftarrow> optional_str d (py ''order_id'');
       if t \<in> set TokenSymbol
       then Some \<lparr>address = a, r_amount = m, r_token = t, r_memo = mem, r_order_id = oid\<rparr>
       else None
     }"

text \<open>The list \<open>recipients_list\<close>; the comprehension raises at the first entry that fails.\<close>

fun convert_all :: "recipient_input list \<Rightarrow> BatchRecipient list option" where
  "convert_all [] = Some []"
| "convert_all (x # xs) =
     (case to_BatchRecipient x of
        None \<Rightarrow> None
      | Some r \<Rightarrow> (case convert_all xs of None \<Rightarrow> None | Some rs \<Rightarrow> Some (r # rs)))"

text \<open>The list \<open>recipient_errors\<close> of one recipient.\<close>

definition recipient_errors :: "pylib \<Rightarrow> BatchRecipient \<Rightarrow> pystr list" where
  "recipient_errors L r =
     (if address r = [] then [py ''Address is required'']
      else if detect_homoglyphs (address r) \<noteq> None then
        [py ''Address contains suspicious characters (possible homoglyph attack)'']
      else if \<not> is_valid_address (address r) None then [py ''Invalid address format'']
      else [])
     @ (if r_amount r = [] then [py ''Amount is required'']
        else if \<not> is_valid_amount L (r_amount r) then
          [py ''Invalid amount (must be positive, max 1 billion)'']
        else [])
     @ (if r_token r = [] then [py ''Token is required'']
        else if \<not> is_valid_token L (r_token r) then [py ''Unsupported token: '' @ r_token r]
        else [])
     @ (if truthy_str (r_memo r) \<and> length (the (r_memo r)) > 256 then
          [py ''Memo exceeds maximum length of 256 characters'']
        else [])"

text \<open>The first loop, over \<open>enumerate(recipients_list)\<close> from index \<open>i\<close>.\<close>

fun item_errors :: "pylib \<Rightarrow> nat \<Rightarrow> BatchRecipient list \<Rightarrow> BatchValidationError list" where
  "item_errors L i [] = []"
| "item_errors L i (r # rs) =
     (if recipient_errors L r \<noteq> []
      then \<lparr>index = i, bve_address = address r, errors = recipient_errors L r\<rparr>
           # item_errors L (Suc i) rs
      else item_errors L (Suc i) rs)"

text \<open>
  The dictionary \<open>address_counts\<close>, in insertion order: the lower-cased address and the
  indices at which it occurs.
\<close>

fun add_index :: "pystr \<Rightarrow> nat \<Rightarrow> (pystr \<times> nat list) list \<Rightarrow> (pystr \<times> nat list) list" where
  "add_index a i [] = [(a, [i])]"
| "add_index a i ((k, is) # kvs) =
     (if k = a then (k, is @ [i]) # kvs else (k, is) # add_index a i kvs)"

fun address_counts ::
  "pylib \<Rightarrow> nat \<Rightarrow> BatchRecipient list \<Rightarrow> (pystr \<times> nat list) list
     \<Rightarrow> (pystr \<times> nat list) list" where
  "address_counts L i [] counts = counts"
| "address_counts L i (r # rs) counts =
     address_counts L (Suc i) rs
       (if address r \<noteq> [] then add_index (str_lower L (address r)) i counts else counts)"

definition duplicate_message :: "nat \<Rightarrow> pystr" where
  "duplicate_message n = py ''Duplicate address (appears '' @ str_nat n @ py '' times)''"

text \<open>
  The warning for one index: appended to the first entry with that index (the entries are
  mutable objects of the list), or a new entry at the end of the list.
\<close>

fun add_warning ::
  "pystr \<Rightarrow> pystr \<Rightarrow> nat \<Rightarrow> BatchValidationError list \<Rightarrow> BatchValidationError list" where
  "add_warning a msg i [] = [\<lparr>index = i, bve_address = a, errors = [msg]\<rparr>]"
| "add_warning a msg i (e # es) =
     (if index e = i then e\<lparr>errors := errors e @ [msg]\<rparr> # es
      else e # add_warning a msg i es)"

definition add_duplicates ::
  "BatchValidationError list \<Rightarrow> pystr \<times> nat list \<Rightarrow> BatchValidationError list" where
  "add_duplicates errs entry =
     (case entry of (a, indices) \<Rightarrow>
        if length indices > 1
        then foldl (\<lambda>es i. add_warning a (duplicate_message (length indices)) i es) errs indices
        else errs)"

text \<open>\<open>BatchModule.validate\<close>; \<open>sorted\<close> is stable.\<close>

definition validate :: "pylib \<Rightarrow> recipient_input list \<Rightarrow> error + BatchValidationError list" where
  "validate L recipients =
     (case convert_all recipients of
        None \<Rightarrow> Inl PydanticValidationError
      | Some recipients_list \<Rightarrow>
          if length recipients_list > MAX_BATCH_SIZE then
            Inl (ProtocolBanksError BATCH_SIZE_EXCEEDED
                   (py ''Batch size '' @ str_nat (length recipients_list)
                    @ py '' exceeds maximum of '' @ str_nat MAX_BATCH_SIZE))
          else if length recipients_list = 0 then
            Inl (ProtocolBanksError BATCH_VALIDATION_FAILED (py ''Batch cannot be empty''))
          else
            Inr (sort_key index
                   (foldl add_duplicates (item_errors L 0 recipients_list)
                      (address_counts L 0 recipients_list []))))"

section \<open>A library instance for evaluation\<close>

text \<open>
  To evaluate the model on concrete inputs, the fields of the library are instantiated
  with functions that agree with Python on the inputs used below: ASCII case mapping,
  decimal integers, and URL coding restricted to names and values made of unreserved
  characters, which \<open>urlencode\<close> and \<open>parse_qs\<close> leave as they are. The two digests are
  stand-ins that, like the real ones, return 64 lower-case hexadecimal digits; no result
  below depends on their values.
\<close>

definition ascii_lower :: "pystr \<Rightarrow> pystr" where
  "ascii_lower s = map (\<lambda>c. if is_upper_AZ c then c + 32 else c) s"

definition ascii_upper :: "pystr \<Rightarrow> pystr" where
  "ascii_upper s = map (\<lambda>c. if is_lower_az c then c - 32 else c) s"

definition nat_of_digits :: "pystr \<Rightarrow> nat" where
  "nat_of_digits s = foldl (\<lambda>a c. 10 * a + (c - 48)) 0 s"

definition plain_int :: "pystr \<Rightarrow> int option" where
  "plain_int s =
     (if s \<noteq> [] \<and> list_all is_digit s then Some (int (nat_of_digits s))
      else if length s > 1 \<and> hd s = 45 \<and> list_all is_digit (tl s)
      then Some (- int (nat_of_digits (tl s)))
      else None)"

definition plain_float :: "pystr \<Rightarrow> pyfloat option" where
  "plain_float s =
     (if s \<noteq> [] \<and> list_all is_digit s \<and> length s \<le> 15
      then Some (Finite (of_nat (nat_of_digits s))) else None)"

definition plain_urlencode :: "(pystr \<times> pystr) list \<Rightarrow> pystr" where
  "plain_urlencode kvs = join (py ''&'') (map (\<lambda>(k, v). k @ py ''='' @ v) kvs)"

text \<open>The pairs of a query string: fields without a value are dropped, as \<open>parse_qs\<close> does.\<close>

definition plain_pairs :: "pystr \<Rightarrow> (pystr \<times> pystr) list" where
  "plain_pairs q =
     filter (\<lambda>(k, v). v \<noteq> []) (map (split_first 61) (filter (\<lambda>f. f \<noteq> []) (split_chr 38 q)))"

text \<open>
  \<open>parsed_query q\<close> is the dictionary that \<open>parse_qs\<close> returns for the query string
  \<open>urlencode(q)\<close>: fields with an empty value are dropped and the values of a name are
  collected in order.
\<close>

fun group_pairs :: "(pystr \<times> pystr) list \<Rightarrow> (pystr \<times> pystr list) list" where
  "group_pairs [] = []"
| "group_pairs ((k, v) # kvs) =
     (k, v # map snd (filter (\<lambda>p. fst p = k) kvs)) # group_pairs (filter (\<lambda>p. fst p \<noteq> k) kvs)"

definition parsed_query :: "(pystr \<times> pystr) list \<Rightarrow> (pystr \<times> pystr list) list" where
  "parsed_query q = group_pairs (filter (\<lambda>(k, v). v \<noteq> []) q)"

definition plain_qs_of_url :: "pystr \<Rightarrow> (pystr \<times> pystr list) list option" where
  "plain_qs_of_url u =
     Some (group_pairs (plain_pairs (takeWhile (\<lambda>c. c \<noteq> 35) (snd (split_first 63 u)))))"

definition stand_in_digest :: "pystr \<Rightarrow> pystr" where
  "stand_in_digest s =
     (let h = foldl (\<lambda>a c. (a * 31 + c) mod 65536) 7 s
      in map (\<lambda>i. (if (h div 2 ^ (i mod 16)) mod 2 = 0 then 97 + i mod 6 else 48 + i mod 10))
           [0..<64])"

text \<open>
  The event of the repository's webhook tests,
  \<open>{"id": "evt_123", "type": "payment.completed", "data": {}}\<close>, is the one payload this
  instance parses.
\<close>

definition test_payload :: pystr where
  "test_payload = py ''{\"id\": \"evt_123\", \"type\": \"payment.completed\", \"data\": {}}''"

definition plain_json_loads :: "pystr \<Rightarrow> json option" where
  "plain_json_loads s =
     (if s = test_payload
      then Some (JObj [(py ''id'', JStr (py ''evt_123'')),
                       (py ''type'', JStr (py ''payment.completed'')),
                       (py ''data'', JObj [])])
      else None)"

definition plain_lib :: pylib where
  "plain_lib =
     \<lparr>sha256_hexdigest = stand_in_digest,
      hmac_hexdigest = (\<lambda>secret data. stand_in_digest (secret @ [0] @ data)),
      str_lower = ascii_lower,
      str_upper = ascii_upper,
      float_of_str = plain_float,
      int_of_str = plain_int,
      urlencode = plain_urlencode,
      qs_of_url = plain_qs_of_url,
      json_loads = plain_json_loads,
      fromtimestamp = (\<lambda>v. case v of JInt i \<Rightarrow> Some (i * 1000000) | _ \<Rightarrow> None),
      fromisoformat = (\<lambda>s. None),
      int_of_scaled = (\<lambda>v d. \<lfloor>v * 10 ^ nat d\<rfloor>)\<rparr>"

section \<open>Example inputs\<close>

text \<open>The address, the secrets and the clock readings used to evaluate the model.\<close>

definition valid_evm_address :: pystr where
  "valid_evm_address = py ''0x1234567890123456789012345678901234567890''"


definition example_nonce :: pystr where
  "example_nonce = py ''0x'' @ replicate 64 48"


text \<open>
  The authorization that \<open>create_authorization\<close> builds from these parameters with
  \<open>valid_for = 7200\<close> at the time 1700000000.
\<close>

definition example_auth :: X402Authorization where
  "example_auth =
     \<lparr>auth_id = py ''x402_123e4567e89b42d3a456426614174000'',
      domain = \<lparr>domain_name = py ''USD Coin'', version = py ''2'', domain_chain_id = 1,
                verifying_contract = py ''0xA0b86991c6218b36c1d19D4a2e9Eb0cE3606eB48''\<rparr>,
      message = \<lparr>from_address = [], msg_to = valid_evm_address, msg_value = py ''100000000'',
                 valid_after = 1700000000, valid_before = 1700007200,
                 msg_nonce = example_nonce\<rparr>,
      status = py ''pending'', transaction_hash = None,
      created_at = 1700000000000000, expires_at = 1700007200000000,
      auth_signature = None, relayer_fee = None\<rparr>"

definition example_store :: x402_store where
  "example_store = Map.empty(auth_id example_auth \<mapsto> example_auth)"

text \<open>A 65-byte signature in hexadecimal followed by a newline.\<close>

definition newline_signature :: pystr where
  "newline_signature = py ''0x'' @ replicate 130 97 @ [10]"

text \<open>
  The constraints that pydantic puts on the fields of a \<open>PaymentLinkParams\<close> object when
  it is built (types.py).
\<close>

definition PaymentLinkParams_ok :: "PaymentLinkParams \<Rightarrow> bool" where
  "PaymentLinkParams_ok params =
     ((case token params of Some t \<Rightarrow> t \<in> set TokenSymbol | None \<Rightarrow> True)
      \<and> (case chain params of Some c \<Rightarrow> c \<in> set ChainId | None \<Rightarrow> True)
      \<and> (case allowed_chains params of
            Some cs \<Rightarrow> list_all (\<lambda>c. c \<in> set ChainId) cs | None \<Rightarrow> True)
      \<and> (case allowed_tokens params of
            Some ts \<Rightarrow> list_all (\<lambda>t. t \<in> set TokenSymbol) ts | None \<Rightarrow> True))"

definition example_module :: PaymentLinkModule where
  "example_module = PaymentLinkModule_init (py ''sk_test_abcdefghijklmnopqrstuvwxyz123456'') None"

text \<open>\<open>PaymentLinkParams(to=valid_evm_address, amount="100")\<close> with the defaults of the class.\<close>

definition example_link_params :: PaymentLinkParams where
  "example_link_params =
     \<lparr>to = valid_evm_address, amount = py ''100'', token = Some (py ''USDC''), chain = None,
      expiry_hours = Some 24, memo = None, order_id = None, callback_url = None,
      webhook_url = None, allowed_chains = None, allowed_tokens = None, metadata = None\<rparr>"

text \<open>A link whose address has the Cyrillic letter U+0430 in place of the Latin \<open>a\<close>.\<close>

definition homoglyph_address :: pystr where
  "homoglyph_address = py ''0x'' @ [1072] @ py ''bcdef7890123456789012345678901234567890''"

definition homoglyph_url :: pystr where
  "homoglyph_url =
     py ''https://app.protocolbanks.com/pay?to='' @ homoglyph_address
     @ py ''&amount=100&token=USDC&exp=1700086400000&sig=0123456789abcdef''"


text \<open>
  The link that \<open>generate\<close> builds from \<open>example_link_params\<close> at the time
  1700000000 with the library instance above.
\<close>

definition example_link :: PaymentLink where
  "example_link =
     \<lparr>url = py ''https://app.protocolbanks.com/pay?to='' @ valid_evm_address
            @ py ''&amount=100&token=USDC&exp=1700086400000&sig=01cde5abc90123cd''
            @ py ''&id=pay_123e4567e89b42d3a456426614174000'',
      short_url = py ''https://app.protocolbanks.com/p/123e4567'',
      link_params = example_link_params,
      signature = py ''01cde5abc90123cd'',
      link_expires_at = 1700086400000000,
      link_created_at = 1700000000000000,
      payment_id = py ''pay_123e4567e89b42d3a456426614174000''\<rparr>"

section \<open>Basic facts\<close>

lemma py_eq_iff [simp]: "py a = py b \<longleftrightarrow> a = b"
  unfolding py_def by (simp add: inj_map_eq_map inj_on_def)

lemma py_Nil_iff [simp]: "py a = [] \<longleftrightarrow> a = []" "[] = py a \<longleftrightarrow> a = []"
  unfolding py_def by auto


section \<open>Gasless authorizations: the claims\<close>


lemma create_authorization_expires_at:
  "create_authorization L now created uuid nonce st params = (Inr a, st') \<Longrightarrow>
   expires_at a = datetime_of_seconds (valid_before (message a))"
  by (auto simp: create_authorization_def Let_def split: option.splits if_splits sum.splits)

text \<open>
  A signature that \<open>_is_valid_signature\<close> rejects raises the invalid-signature error and
  leaves the store as it was.
\<close>

lemma submit_signature_invalid_signature:
  assumes "st aid = Some auth" and "\<not> x402_is_expired clock auth" and "\<not> is_valid_signature sg"
  shows "submit_signature relay clock st aid sg =
           (Inl (ProtocolBanksError X402_INVALID_SIGNATURE (py ''Invalid signature format'')), st)"
  using assms by (simp add: submit_signature_def)










subsection \<open>Evaluation on the example inputs\<close>

lemmas homoglyph_tables = ALL_HOMOGLYPHS_def CYRILLIC_HOMOGLYPHS_def GREEK_HOMOGLYPHS_def
lemmas char_classes = is_hex_def is_digit_def is_lower_az_def is_upper_AZ_def is_base58_def is_lower_alnum_def











lemma is_valid_signature_newline: "is_valid_signature newline_signature"
  by (simp add: is_valid_signature_def re_match_dollar_def newline_signature_def butlast_append)
     (simp add: py_def char_classes list_all_iff)

text \<open>
  C10. The pattern of \<open>_is_valid_signature\<close> ends in \<open>$\<close>, which also matches before a
  final newline: a signature of 133 characters, \<open>0x\<close>, 130 hexadecimal digits and a
  newline, is accepted. On a stored authorization that has not expired, with a relayer that
  answers without a status, \<open>submit_signature\<close> then records the signature and sets the
  status to \<open>submitted\<close>.
\<close>

theorem submit_signature_accepts_trailing_newline:
  "length newline_signature = 133
   \<and> submit_signature (Inr \<lparr>resp_status = None, resp_transaction_hash = None\<rparr>)
        1700000001000000 example_store (auth_id example_auth) newline_signature
     = (Inr (example_auth\<lparr>status := py ''submitted'',
                           auth_signature := Some newline_signature\<rparr>),
        example_store(auth_id example_auth \<mapsto>
          example_auth\<lparr>status := py ''submitted'',
                        auth_signature := Some newline_signature\<rparr>))"
proof -
  have s: "example_store (auth_id example_auth) = Some example_auth"
    by (simp add: example_store_def)
  have e: "\<not> x402_is_expired 1700000001000000 example_auth"
    by (simp add: x402_is_expired_def example_auth_def)
  have l: "length newline_signature = 133"
    by (simp add: newline_signature_def py_def)
  have r: "example_auth\<lparr>auth_signature := Some newline_signature, status := py ''submitted'',
                       transaction_hash := None\<rparr>
           = example_auth\<lparr>status := py ''submitted'', auth_signature := Some newline_signature\<rparr>"
    by (simp add: example_auth_def)
  show ?thesis
    using l by (simp add: submit_signature_def s e is_valid_signature_newline Let_def r)
qed

section \<open>Payment links: the claims\<close>

subsection \<open>Homoglyphs and expiry in \<open>verify\<close>\<close>

lemma homoglyph_lookup:
  assumes "c \<in> fst ` set ALL_HOMOGLYPHS"
  shows "\<exists>e. map_of ALL_HOMOGLYPHS c = Some e \<and> e \<noteq> []"
  using assms by (auto simp: homoglyph_tables py_def)

lemma detect_from_nonempty:
  assumes "\<exists>c \<in> set s. c \<in> fst ` set ALL_HOMOGLYPHS"
  shows "detect_from i s \<noteq> []"
  using assms
proof (induction s arbitrary: i)
  case Nil
  then show ?case by simp
next
  case (Cons x xs)
  show ?case
  proof (cases "x \<in> fst ` set ALL_HOMOGLYPHS")
    case True
    from homoglyph_lookup [OF this] obtain e where "map_of ALL_HOMOGLYPHS x = Some e" "e \<noteq> []"
      by blast
    then show ?thesis by simp
  next
    case False
    with Cons.prems have "\<exists>c \<in> set xs. c \<in> fst ` set ALL_HOMOGLYPHS" by auto
    from Cons.IH [OF this] show ?thesis by (simp split: option.splits)
  qed
qed

lemma detect_homoglyphs_Some:
  assumes "\<exists>c \<in> set s. c \<in> fst ` set ALL_HOMOGLYPHS"
  shows "detect_homoglyphs s =
           Some \<lparr>original_address = s, detected_characters = detect_from 0 s\<rparr>
         \<and> detect_from 0 s \<noteq> []"
  using detect_from_nonempty [OF assms, of 0] by (simp add: detect_homoglyphs_def)

text \<open>
  C4. For every URL that \<open>_parse_url\<close> accepts and whose \<open>to\<close> parameter contains a
  character of the homoglyph table, \<open>verify\<close> returns \<open>valid = False\<close> with
  \<open>tampered_fields = ["to"]\<close> and a homoglyph report that lists at least one character.
  The result is stated without the secret, the digest, the signature of the link and the
  second clock reading: the signature is neither recomputed nor compared.
\<close>

theorem verify_homoglyph_address:
  assumes "parse_url L parse_ms u = Some (params, sg, expiry)"
    and "\<exists>c \<in> set (to params). c \<in> fst ` set ALL_HOMOGLYPHS"
  shows "detect_from 0 (to params) \<noteq> [] \<and>
         verify L m parse_ms check_ms u =
           \<lparr>valid = False, expired = False, tampered_fields = [py ''to''],
            result_params = Some params,
            error = Some (py ''Homoglyph attack detected in address''),
            homoglyph_detected = Some True,
            homoglyph_details =
              Some \<lparr>original_address = to params,
                    detected_characters = detect_from 0 (to params)\<rparr>\<rparr>"
  using assms detect_homoglyphs_Some [of "to params"] by (simp add: verify_def)


subsection \<open>Evaluation on the example links\<close>

lemma qs_homoglyph_url:
  "plain_qs_of_url homoglyph_url =
     Some [(py ''to'', [homoglyph_address]), (py ''amount'', [py ''100'']),
           (py ''token'', [py ''USDC'']), (py ''exp'', [py ''1700086400000'']),
           (py ''sig'', [py ''0123456789abcdef''])]"
  by (simp add: plain_qs_of_url_def homoglyph_url_def homoglyph_address_def plain_pairs_def
      split_first_def py_def)


lemma plain_int_exp: "plain_int (py ''1700086400000'') = Some 1700086400000"
  by (simp add: plain_int_def py_def char_classes nat_of_digits_def)

lemma first_value_simps:
  "first_value ((k, v # vs) # q) k d = Some (Some v)"
  "k' \<noteq> k \<Longrightarrow> first_value ((k', w) # q) k d = first_value q k d"
  "first_value [] k d = Some d"
  by (simp_all add: first_value_def)

lemma parse_url_homoglyph_url:
  "parse_url plain_lib 1700090000000 homoglyph_url =
     Some (\<lparr>to = homoglyph_address, amount = py ''100'', token = Some (py ''USDC''),
            chain = None, expiry_hours = Some 1, memo = None, order_id = None,
            callback_url = None, webhook_url = None, allowed_chains = None,
            allowed_tokens = None, metadata = None\<rparr>,
           py ''0123456789abcdef'', 1700086400000)"
proof -
  have q: "qs_of_url plain_lib homoglyph_url =
     Some [(py ''to'', [homoglyph_address]), (py ''amount'', [py ''100'']),
           (py ''token'', [py ''USDC'']), (py ''exp'', [py ''1700086400000'']),
           (py ''sig'', [py ''0123456789abcdef''])]"
    using qs_homoglyph_url by (simp add: plain_lib_def)
  have i: "int_of_str plain_lib (py ''1700086400000'') = Some 1700086400000"
    using plain_int_exp by (simp add: plain_lib_def)
  have h: "homoglyph_address \<noteq> []"
    by (simp add: homoglyph_address_def)
  show ?thesis
    unfolding parse_url_def q
    by (simp add: first_value_simps i h DEFAULT_TOKEN_def TokenSymbol_def)
qed

theorem verify_homoglyph_address_witness:
  "verify plain_lib example_module 1700090000000 1700090000000 homoglyph_url =
     \<lparr>valid = False, expired = False, tampered_fields = [py ''to''],
      result_params =
        Some \<lparr>to = homoglyph_address, amount = py ''100'', token = Some (py ''USDC''),
              chain = None, expiry_hours = Some 1, memo = None, order_id = None,
              callback_url = None, webhook_url = None, allowed_chains = None,
              allowed_tokens = None, metadata = None\<rparr>,
      error = Some (py ''Homoglyph attack detected in address''),
      homoglyph_detected = Some True,
      homoglyph_details =
        Some \<lparr>original_address = homoglyph_address,
              detected_characters =
                [\<lparr>position = 2, character = 1072, unicode_point_of = py ''U+0430'',
                  expected_character = py ''a''\<rparr>]\<rparr>\<rparr>"
proof -
  have c: "\<exists>c \<in> set homoglyph_address. c \<in> fst ` set ALL_HOMOGLYPHS"
    by (simp add: homoglyph_address_def homoglyph_tables)
  have d: "detect_from 0 homoglyph_address =
             [\<lparr>position = 2, character = 1072, unicode_point_of = py ''U+0430'',
               expected_character = py ''a''\<rparr>]"
    by (simp add: homoglyph_address_def homoglyph_tables py_def unicode_point_def
        hex_upper.simps hex_digit_def)
  show ?thesis
    using verify_homoglyph_address [OF parse_url_homoglyph_url, of example_module 1700090000000] c d
    by simp
qed






subsection \<open>The signature\<close>

text \<open>The five keys are written in sorted order, so sorting leaves the items as they are.\<close>

lemma canonical_string_normalized:
  "canonical_string (normalized L to_addr amt tok expiry mem) =
     py ''amount='' @ amt @ py ''&expiry='' @ str_int expiry @ py ''&memo=''
     @ (if truthy_str mem then the mem else []) @ py ''&to='' @ str_lower L to_addr
     @ py ''&token='' @ str_upper L tok"
proof -
  have "sort_key fst (normalized L to_addr amt tok expiry mem)
        = normalized L to_addr amt tok expiry mem"
    by (simp add: normalized_def py_def)
  then show ?thesis
    unfolding canonical_string_def by (simp only:) (simp add: normalized_def py_def)
qed

text \<open>
  C2. The signature that \<open>PaymentLinkModule.generate\<close> embeds and \<open>verify\<close> recomputes is
  \<open>_generate_signature\<close>: the first 16 characters of the SHA-256 digest of the canonical
  string followed by the API secret. It is a plain hash of a concatenation; the keyed
  digest \<open>hmac_hexdigest\<close> is not used. The function \<open>generate_payment_link_signature\<close>
  of utils/crypto.py, which the module does not call, is the one that computes the HMAC
  (lemma \<open>generate_payment_link_signature_is_hmac\<close>).
\<close>

theorem generate_signature_is_plain_sha256:
  "generate_signature L m to_addr amt tok expiry mem =
     take 16 (sha256_hexdigest L
       (py ''amount='' @ amt @ py ''&expiry='' @ str_int expiry @ py ''&memo=''
        @ (if truthy_str mem then the mem else []) @ py ''&to='' @ str_lower L to_addr
        @ py ''&token='' @ str_upper L tok @ api_secret m))"
  by (simp add: generate_signature_def simple_hash_def canonical_string_normalized)

lemma generate_payment_link_signature_is_hmac:
  "generate_payment_link_signature L to_addr amt tok expiry secret mem =
     take 16 (hmac_hexdigest L secret
       (py ''amount='' @ amt @ py ''&expiry='' @ str_int expiry @ py ''&memo=''
        @ (if truthy_str mem then the mem else []) @ py ''&to='' @ str_lower L to_addr
        @ py ''&token='' @ str_upper L tok))"
  by (simp add: generate_payment_link_signature_def hmac_sign_short_def hmac_sign_def
      canonical_string_normalized)

end
